theory Spec2Isabelle
  imports Complex_Main "HOL-Library.Sublist" "HOL-Library.Word"
begin

section \<open>Python values and strings\<close>

text \<open>
  The rows the store hands back are Python dictionaries from column names to scalars.
  The scalar kinds are the ones the database driver produces: \<open>None\<close>, \<open>bool\<close>,
  \<open>int\<close>, \<open>float\<close>, \<open>decimal.Decimal\<close> (for NUMERIC columns and for AVG over
  integer columns; the attack code converts such values with \<open>float(...)\<close>),
  \<open>str\<close> and dates. Floats and Decimals are represented by the real number they
  denote: rounding, NaN, infinities and the scale of a Decimal are outside the model.
  A date is represented by its ISO text.

  A Python string is modelled as a \<open>string\<close> whose characters are the code points
  below 256; on these \<open>str.lower\<close> keeps the length of the string.
\<close>

datatype pyval =
    PNone
  | PBool bool
  | PInt int
  | PFloat real
  | PDecimal real
  | PStr string
  | PDate string

text \<open>A row is a dictionary in insertion order; the keys of a dictionary are distinct.\<close>

type_synonym row = "(string \<times> pyval) list"

datatype pyerr =
    DatabaseError string
  | TypeError
  | KeyError string
  | ValueError
  | ZeroDivisionError

text \<open>\<open>str(e)\<close> of a caught exception.\<close>

fun str_of_err :: "pyerr \<Rightarrow> string" where
  "str_of_err (DatabaseError msg) = msg"
| "str_of_err TypeError = ''TypeError''"
| "str_of_err (KeyError k) = k"
| "str_of_err ValueError = ''ValueError''"
| "str_of_err ZeroDivisionError = ''division by zero''"

subsection \<open>\<open>str.lower\<close>, \<open>str.strip\<close>, \<open>str.startswith\<close>, \<open>str.find\<close>, \<open>in\<close>\<close>

definition lower_char :: "char \<Rightarrow> char" where
  "lower_char c =
     (let n = (of_char c :: nat)
      in if (65 \<le> n \<and> n \<le> 90) \<or> (192 \<le> n \<and> n \<le> 222 \<and> n \<noteq> 215)
         then char_of (n + 32) else c)"

definition lower :: "string \<Rightarrow> string" where
  "lower s = map lower_char s"

text \<open>The characters \<open>str.strip()\<close> removes, among the code points below 256.\<close>

definition is_space :: "char \<Rightarrow> bool" where
  "is_space c =
     (let n = (of_char c :: nat)
      in (9 \<le> n \<and> n \<le> 13) \<or> (28 \<le> n \<and> n \<le> 32) \<or> n = 133 \<or> n = 160)"

definition strip :: "string \<Rightarrow> string" where
  "strip s = rev (dropWhile is_space (rev (dropWhile is_space s)))"

fun startswith :: "string \<Rightarrow> string \<Rightarrow> bool" where
  "startswith s [] = True"
| "startswith [] (p # ps) = False"
| "startswith (c # cs) (p # ps) = (c = p \<and> startswith cs ps)"

text \<open>\<open>s.find(sub)\<close>: the lowest index at which \<open>sub\<close> occurs in \<open>s\<close>, or \<open>-1\<close>.\<close>

fun find_from :: "nat \<Rightarrow> string \<Rightarrow> string \<Rightarrow> int" where
  "find_from i [] sub = (if sub = [] then int i else -1)"
| "find_from i (c # cs) sub =
     (if startswith (c # cs) sub then int i else find_from (Suc i) cs sub)"

definition py_find :: "string \<Rightarrow> string \<Rightarrow> int" where
  "py_find s sub = find_from 0 s sub"

text \<open>\<open>sub in s\<close> on strings.\<close>

fun py_in :: "string \<Rightarrow> string \<Rightarrow> bool" where
  "py_in sub [] = (sub = [])"
| "py_in sub (c # cs) = (startswith (c # cs) sub \<or> py_in sub cs)"

text \<open>\<open>s[i:]\<close> for an index \<open>i \<ge> 0\<close>.\<close>

definition slice_from :: "string \<Rightarrow> int \<Rightarrow> string" where
  "slice_from s i = drop (nat i) s"

subsection \<open>Decimal text of an integer\<close>

definition digit_char :: "nat \<Rightarrow> char" where
  "digit_char d = ''0123456789'' ! d"

function digits10 :: "nat \<Rightarrow> string" where
  "digits10 n = (if n < 10 then [digit_char n] else digits10 (n div 10) @ [digit_char (n mod 10)])"
  by pat_completeness auto
termination
  by (relation "measure id") auto

declare digits10.simps [simp del]

definition str_int :: "int \<Rightarrow> string" where
  "str_int i = (if i < 0 then CHR ''-'' # digits10 (nat (- i)) else digits10 (nat i))"

section \<open>The count query of Minimum Size Restriction\<close>

text \<open>
  \<^verbatim>\<open>
  def _convert_to_count_query(self, query):
      query_lower = query.lower().strip()
      if query_lower.startswith('select'):
          from_index = query_lower.find('from')
          if from_index != -1:
              return f"SELECT COUNT(*) as count FROM {query[from_index + 4:]}"
      return f"SELECT COUNT(*) as count FROM ({query}) as subquery"
  \<close>
\<close>

definition convert_to_count_query :: "string \<Rightarrow> string" where
  "convert_to_count_query query =
     (let query_lower = strip (lower query)
      in if startswith query_lower ''select'' \<and> py_find query_lower ''from'' \<noteq> -1
         then ''SELECT COUNT(*) as count FROM '' @ slice_from query (py_find query_lower ''from'' + 4)
         else ''SELECT COUNT(*) as count FROM ('' @ query @ '') as subquery'')"

section \<open>The store, the audit table and the history table\<close>

text \<open>
  \<open>Database.execute_query\<close> sends a statement to the external store and either returns
  the fetched rows or re-raises the driver's exception. The store is outside the
  program, so its behaviour is a parameter: \<open>run\<close> answers a statement that fetches
  rows (\<open>Inl msg\<close> is an exception \<open>e\<close> with \<open>str(e) = msg\<close>), and \<open>fault\<close> says
  whether one of the program's own bookkeeping statements (the INSERT into
  \<open>query_audit\<close> or \<open>query_history\<close>, the SELECT on \<open>query_history\<close>) is rejected.
  Both may change the state \<open>'w\<close> of the outside world. The two bookkeeping tables are
  kept explicitly, newest entry first, and only the bookkeeping statements touch them.

  The remaining parameters are the library functions the model does not compute:
  SHA-256 (a hex digest of 64 digits is represented by the 256-bit number it spells),
  the canonical text \<open>str(sorted([str(sorted(r.items())) for r in results]))\<close> of a
  result set, the text Python gives a float, a Decimal or a date, the number
  \<open>float(s)\<close> reads from a string (\<open>None\<close> where it raises), the \<open>:.2f\<close> format,
  and the sampler \<open>np.random.laplace(loc, scale)\<close>.
\<close>

type_synonym cred = "string option \<times> string option"

type_synonym sha256_digest = "256 word"

record 'w env =
  run :: "'w \<Rightarrow> string \<Rightarrow> pyval list option \<Rightarrow> cred \<Rightarrow> (string + row list) \<times> 'w"
  fault :: "'w \<Rightarrow> string option \<times> 'w"
  sha256 :: "string \<Rightarrow> sha256_digest"
  result_str :: "row list \<Rightarrow> string"
  str_other :: "pyval \<Rightarrow> string"
  float_of_str :: "string \<Rightarrow> real option"
  format_2f :: "real \<Rightarrow> string"
  laplace :: "real \<Rightarrow> real \<Rightarrow> 'w \<Rightarrow> real \<times> 'w"

record audit_record =
  au_username :: string
  au_query_text :: string
  au_result_count :: pyval
  au_was_blocked :: bool
  au_block_reason :: "string option"

record history_entry =
  h_username :: string
  h_query_hash :: sha256_digest
  h_query_text :: string
  h_result_set_hash :: "sha256_digest option"

record 'w database =
  world :: 'w
  query_audit :: "audit_record list"
  query_history :: "history_entry list"

text \<open>\<open>Database.execute_query(query, params, user, password)\<close> with \<open>fetch=True\<close>.\<close>

definition execute_query ::
  "'w env \<Rightarrow> 'w database \<Rightarrow> string \<Rightarrow> pyval list option \<Rightarrow> cred
     \<Rightarrow> (pyerr + row list) \<times> 'w database" where
  "execute_query E db query params cr =
     (case run E (world db) query params cr of
        (Inl msg, w) \<Rightarrow> (Inl (DatabaseError msg), db\<lparr>world := w\<rparr>)
      | (Inr rows, w) \<Rightarrow> (Inr rows, db\<lparr>world := w\<rparr>))"

text \<open>\<open>Database.log_query_audit\<close>: one INSERT into \<open>query_audit\<close>.\<close>

definition log_query_audit ::
  "'w env \<Rightarrow> 'w database \<Rightarrow> string \<Rightarrow> string \<Rightarrow> pyval \<Rightarrow> bool \<Rightarrow> string option
     \<Rightarrow> (pyerr + unit) \<times> 'w database" where
  "log_query_audit E db username query_text result_count was_blocked reason =
     (case fault E (world db) of
        (Some msg, w) \<Rightarrow> (Inl (DatabaseError msg), db\<lparr>world := w\<rparr>)
      | (None, w) \<Rightarrow>
          (Inr (),
           db\<lparr>world := w,
              query_audit :=
                \<lparr>au_username = username, au_query_text = query_text,
                 au_result_count = result_count, au_was_blocked = was_blocked,
                 au_block_reason = reason\<rparr> # query_audit db\<rparr>))"

text \<open>
  \<open>Database.store_query_history\<close>: the hash of the result set is stored only for a
  non-empty result set (\<open>if result_set:\<close>).
\<close>

definition result_set_hash :: "'w env \<Rightarrow> row list \<Rightarrow> sha256_digest" where
  "result_set_hash E rs = sha256 E (result_str E rs)"

definition store_query_history ::
  "'w env \<Rightarrow> 'w database \<Rightarrow> string \<Rightarrow> string \<Rightarrow> row list option
     \<Rightarrow> (pyerr + unit) \<times> 'w database" where
  "store_query_history E db username query_text result_set =
     (let query_hash = sha256 E query_text;
          result_hash = (case result_set of
                           None \<Rightarrow> None
                         | Some rs \<Rightarrow> if rs = [] then None else Some (result_set_hash E rs))
      in case fault E (world db) of
           (Some msg, w) \<Rightarrow> (Inl (DatabaseError msg), db\<lparr>world := w\<rparr>)
         | (None, w) \<Rightarrow>
             (Inr (),
              db\<lparr>world := w,
                 query_history :=
                   \<lparr>h_username = username, h_query_hash = query_hash,
                    h_query_text = query_text, h_result_set_hash = result_hash\<rparr>
                   # query_history db\<rparr>))"

text \<open>
  \<open>Database.get_query_history(username, limit)\<close>: the caller's entries, most recent
  first, at most \<open>limit\<close> of them.
\<close>

definition get_query_history ::
  "'w env \<Rightarrow> 'w database \<Rightarrow> string \<Rightarrow> nat \<Rightarrow> (pyerr + history_entry list) \<times> 'w database" where
  "get_query_history E db username limit =
     (case fault E (world db) of
        (Some msg, w) \<Rightarrow> (Inl (DatabaseError msg), db\<lparr>world := w\<rparr>)
      | (None, w) \<Rightarrow>
          (Inr (take limit (filter (\<lambda>h. h_username h = username) (query_history db))),
           db\<lparr>world := w\<rparr>))"

section \<open>The executor gateway\<close>

text \<open>
  \<^verbatim>\<open>
  def execute_with_logging(self, query, params=None, user=None, password=None):
      try:
          results = self.db.execute_query(query, params, user, password)
          result_count = len(results) if results else 0
          self.db.log_query_audit(self.username, query, result_count, False, None)
          return results, False, None
      except Exception as e:
          self.db.log_query_audit(self.username, query, 0, True, str(e))
          return None, True, str(e)
  \<close>
  The handler also catches a failure of the first audit INSERT; a failure of the
  INSERT inside the handler leaves the function as an exception.
\<close>

type_synonym gateway_result = "row list option \<times> bool \<times> string option"

definition logging_handler ::
  "'w env \<Rightarrow> string \<Rightarrow> 'w database \<Rightarrow> string \<Rightarrow> pyerr
     \<Rightarrow> (pyerr + gateway_result) \<times> 'w database" where
  "logging_handler E username db query e =
     (case log_query_audit E db username query (PInt 0) True (Some (str_of_err e)) of
        (Inl e', db') \<Rightarrow> (Inl e', db')
      | (Inr _, db') \<Rightarrow> (Inr (None, True, Some (str_of_err e)), db'))"

definition execute_with_logging ::
  "'w env \<Rightarrow> string \<Rightarrow> 'w database \<Rightarrow> string \<Rightarrow> pyval list option \<Rightarrow> cred
     \<Rightarrow> (pyerr + gateway_result) \<times> 'w database" where
  "execute_with_logging E username db query params cr =
     (case execute_query E db query params cr of
        (Inl e, db1) \<Rightarrow> logging_handler E username db1 query e
      | (Inr rs, db1) \<Rightarrow>
          (case log_query_audit E db1 username query (PInt (int (length rs))) False None of
             (Inl e, db2) \<Rightarrow> logging_handler E username db2 query e
           | (Inr _, db2) \<Rightarrow> (Inr (Some rs, False, None), db2)))"

text \<open>
  The attacks go to the store directly:
  \<^verbatim>\<open>
  def execute_query(self, query, params=None, user=None, password=None):
      try:
          return self.db.execute_query(query, params, user, password)
      except Exception as e:
          print(f"Attack query failed: {e}")
          return None
  \<close>
\<close>

definition attack_execute_query ::
  "'w env \<Rightarrow> 'w database \<Rightarrow> string \<Rightarrow> pyval list option \<Rightarrow> cred
     \<Rightarrow> row list option \<times> 'w database" where
  "attack_execute_query E db query params cr =
     (case execute_query E db query params cr of
        (Inl e, db') \<Rightarrow> (None, db')
      | (Inr rs, db') \<Rightarrow> (Some rs, db'))"

section \<open>The protection strategies\<close>

text \<open>
  Every \<open>aggregate\<close> returns a dictionary with the keys \<open>method\<close> (the field \<open>method_name\<close>), \<open>blocked\<close>,
  \<open>block_reason\<close>, \<open>results\<close> and \<open>protection_applied\<close>; two of the strategies add
  the key \<open>original_results\<close> on their success path. In the record, \<open>None\<close> in
  \<open>original_results\<close> is the absent key (the key never holds \<open>None\<close>), and \<open>None\<close>
  in the other optional fields is Python's \<open>None\<close>.
\<close>

record outcome =
  method_name :: string
  blocked :: bool
  block_reason :: "string option"
  results :: "row list option"
  original_results :: "row list option"
  protection_applied :: "string option"

text \<open>\<open>str(v)\<close>, as an f-string formats a value.\<close>

definition py_str :: "'w env \<Rightarrow> pyval \<Rightarrow> string" where
  "py_str E v =
     (case v of
        PNone \<Rightarrow> ''None''
      | PBool b \<Rightarrow> (if b then ''True'' else ''False'')
      | PInt i \<Rightarrow> str_int i
      | PStr s \<Rightarrow> s
      | _ \<Rightarrow> str_other E v)"

text \<open>\<open>v < m\<close> for an integer \<open>m\<close>: a number compares, anything else raises.\<close>

fun py_lt_int :: "pyval \<Rightarrow> int \<Rightarrow> pyerr + bool" where
  "py_lt_int (PInt i) m = Inr (i < m)"
| "py_lt_int (PBool b) m = Inr ((if b then 1 else 0) < m)"
| "py_lt_int (PFloat r) m = Inr (r < real_of_int m)"
| "py_lt_int (PDecimal r) m = Inr (r < real_of_int m)"
| "py_lt_int PNone m = Inl TypeError"
| "py_lt_int (PStr s) m = Inl TypeError"
| "py_lt_int (PDate d) m = Inl TypeError"

text \<open>\<open>row[key]\<close>.\<close>

definition getitem :: "row \<Rightarrow> string \<Rightarrow> pyerr + pyval" where
  "getitem r key = (case map_of r key of None \<Rightarrow> Inl (KeyError key) | Some v \<Rightarrow> Inr v)"

subsection \<open>No Protection\<close>


subsection \<open>Minimum Size Restriction\<close>

text \<open>\<open>count = count_results[0]['count'] if count_results else 0\<close>\<close>

definition derived_count :: "row list option \<Rightarrow> pyerr + pyval" where
  "derived_count count_results =
     (case count_results of
        None \<Rightarrow> Inr (PInt 0)
      | Some [] \<Rightarrow> Inr (PInt 0)
      | Some (r # _) \<Rightarrow> getitem r ''count'')"

definition too_small_reason :: "'w env \<Rightarrow> pyval \<Rightarrow> int \<Rightarrow> string" where
  "too_small_reason E count min_size =
     ''Result set too small: '' @ py_str E count @ '' < '' @ str_int min_size"

definition MinimumSizeRestriction_aggregate ::
  "'w env \<Rightarrow> string \<Rightarrow> int \<Rightarrow> 'w database \<Rightarrow> string \<Rightarrow> pyval list option \<Rightarrow> cred
     \<Rightarrow> (pyerr + outcome) \<times> 'w database" where
  "MinimumSizeRestriction_aggregate E username min_size db query params cr =
     (let count_query = convert_to_count_query query
      in case execute_with_logging E username db count_query params cr of
           (Inl e, db1) \<Rightarrow> (Inl e, db1)
         | (Inr (count_results, blk, reason), db1) \<Rightarrow>
             if blk then
               (Inr \<lparr>method_name = ''Minimum Size Restriction'', blocked = True,
                     block_reason = reason, results = None, original_results = None,
                     protection_applied = Some (''min_size='' @ str_int min_size)\<rparr>, db1)
             else
               (case derived_count count_results of
                  Inl e \<Rightarrow> (Inl e, db1)
                | Inr count \<Rightarrow>
                    (case py_lt_int count min_size of
                       Inl e \<Rightarrow> (Inl e, db1)
                     | Inr True \<Rightarrow>
                         (case log_query_audit E db1 username query count True
                                 (Some (too_small_reason E count min_size)) of
                            (Inl e, db2) \<Rightarrow> (Inl e, db2)
                          | (Inr _, db2) \<Rightarrow>
                              (Inr \<lparr>method_name = ''Minimum Size Restriction'', blocked = True,
                                    block_reason = Some (too_small_reason E count min_size),
                                    results = None, original_results = None,
                                    protection_applied =
                                      Some (''min_size='' @ str_int min_size)\<rparr>, db2))
                     | Inr False \<Rightarrow>
                         (case execute_with_logging E username db1 query params cr of
                            (Inl e, db2) \<Rightarrow> (Inl e, db2)
                          | (Inr (rs, blk2, reason2), db2) \<Rightarrow>
                              (Inr \<lparr>method_name = ''Minimum Size Restriction'', blocked = blk2,
                                    block_reason = reason2, results = rs,
                                    original_results = None,
                                    protection_applied =
                                      Some (''min_size='' @ str_int min_size
                                            @ '', actual_size='' @ py_str E count)\<rparr>, db2)))))"

subsection \<open>Differential Privacy\<close>

text \<open>
  \<open>isinstance(value, (int, float))\<close> holds for \<open>int\<close>, for \<open>float\<close> and for \<open>bool\<close>
  (a subclass of \<open>int\<close>), and for nothing else; \<open>int_or_float\<close> gives the number that
  \<open>value + noise\<close> then adds to.
\<close>

fun int_or_float :: "pyval \<Rightarrow> real option" where
  "int_or_float (PInt i) = Some (real_of_int i)"
| "int_or_float (PFloat r) = Some r"
| "int_or_float (PBool b) = Some (if b then 1 else 0)"
| "int_or_float PNone = None"
| "int_or_float (PDecimal r) = None"
| "int_or_float (PStr s) = None"
| "int_or_float (PDate d) = None"

text \<open>
  \<open>np.random.laplace(0, 1 / self.epsilon)\<close>: the division raises for \<open>epsilon = 0\<close>,
  the sampler rejects a negative scale.
\<close>

definition draw_noise :: "'w env \<Rightarrow> real \<Rightarrow> 'w \<Rightarrow> (pyerr + real) \<times> 'w" where
  "draw_noise E epsilon w =
     (if epsilon = 0 then (Inl ZeroDivisionError, w)
      else if 1 / epsilon < 0 then (Inl ValueError, w)
      else (case laplace E 0 (1 / epsilon) w of (noise, w') \<Rightarrow> (Inr noise, w')))"

text \<open>The inner loop \<open>for key, value in row.items()\<close>.\<close>

fun noisy_row :: "'w env \<Rightarrow> real \<Rightarrow> row \<Rightarrow> 'w \<Rightarrow> (pyerr + row) \<times> 'w" where
  "noisy_row E epsilon [] w = (Inr [], w)"
| "noisy_row E epsilon ((key, v) # items) w =
     (case int_or_float v of
        Some x \<Rightarrow>
          (case draw_noise E epsilon w of
             (Inl e, w1) \<Rightarrow> (Inl e, w1)
           | (Inr noise, w1) \<Rightarrow>
               (case noisy_row E epsilon items w1 of
                  (Inl e, w2) \<Rightarrow> (Inl e, w2)
                | (Inr items', w2) \<Rightarrow> (Inr ((key, PFloat (x + noise)) # items'), w2)))
      | None \<Rightarrow>
          (case noisy_row E epsilon items w of
             (Inl e, w2) \<Rightarrow> (Inl e, w2)
           | (Inr items', w2) \<Rightarrow> (Inr ((key, v) # items'), w2)))"

text \<open>The outer loop \<open>for row in results\<close>.\<close>

fun noisy_rows :: "'w env \<Rightarrow> real \<Rightarrow> row list \<Rightarrow> 'w \<Rightarrow> (pyerr + row list) \<times> 'w" where
  "noisy_rows E epsilon [] w = (Inr [], w)"
| "noisy_rows E epsilon (r # rs) w =
     (case noisy_row E epsilon r w of
        (Inl e, w1) \<Rightarrow> (Inl e, w1)
      | (Inr r', w1) \<Rightarrow>
          (case noisy_rows E epsilon rs w1 of
             (Inl e, w2) \<Rightarrow> (Inl e, w2)
           | (Inr rs', w2) \<Rightarrow> (Inr (r' # rs'), w2)))"

text \<open>\<open>not results\<close>: \<open>None\<close> or the empty list.\<close>

fun falsy :: "row list option \<Rightarrow> bool" where
  "falsy None = True"
| "falsy (Some rs) = (rs = [])"


subsection \<open>Overlap Control\<close>

text \<open>
  \<^verbatim>\<open>
  def _calculate_overlap(self, hash1, hash2):
      bin1 = bin(int(hash1, 16))[2:].zfill(256)
      bin2 = bin(int(hash2, 16))[2:].zfill(256)
      matches = sum(b1 == b2 for b1, b2 in zip(bin1, bin2))
      return matches / 256
  \<close>
  \<open>int(hash, 16)\<close> of a digest is the number the digest stands for, \<open>unat\<close> of the
  word. The quotient \<open>matches / 256\<close> is exact in binary floating point.
\<close>

function bin_digits :: "nat \<Rightarrow> string" where
  "bin_digits n = (if n < 2 then [digit_char n] else bin_digits (n div 2) @ [digit_char (n mod 2)])"
  by pat_completeness auto
termination
  by (relation "measure id") auto

declare bin_digits.simps [simp del]

definition zfill :: "nat \<Rightarrow> string \<Rightarrow> string" where
  "zfill width s = replicate (width - length s) CHR ''0'' @ s"

definition calculate_overlap :: "sha256_digest \<Rightarrow> sha256_digest \<Rightarrow> real" where
  "calculate_overlap hash1 hash2 =
     (let bin1 = zfill 256 (bin_digits (unat hash1));
          bin2 = zfill 256 (bin_digits (unat hash2));
          matches = length (filter (\<lambda>(b1, b2). b1 = b2) (zip bin1 bin2))
      in real matches / 256)"

text \<open>
  The loop over the history: the first entry with a stored hash whose overlap with the
  current hash exceeds the threshold ends the loop; its overlap is returned.
\<close>

fun first_overlap_above :: "real \<Rightarrow> sha256_digest \<Rightarrow> history_entry list \<Rightarrow> real option" where
  "first_overlap_above threshold current_hash [] = None"
| "first_overlap_above threshold current_hash (hist_entry # rest) =
     (case h_result_set_hash hist_entry of
        None \<Rightarrow> first_overlap_above threshold current_hash rest
      | Some stored \<Rightarrow>
          (let overlap = calculate_overlap current_hash stored
           in if overlap > threshold then Some overlap
              else first_overlap_above threshold current_hash rest))"

definition OverlapControl_aggregate ::
  "'w env \<Rightarrow> string \<Rightarrow> real \<Rightarrow> 'w database \<Rightarrow> string \<Rightarrow> pyval list option \<Rightarrow> cred
     \<Rightarrow> (pyerr + outcome) \<times> 'w database" where
  "OverlapControl_aggregate E username overlap_threshold db query params cr =
     (case get_query_history E db username 20 of
        (Inl e, db0) \<Rightarrow> (Inl e, db0)
      | (Inr history, db0) \<Rightarrow>
          (case execute_with_logging E username db0 query params cr of
             (Inl e, db1) \<Rightarrow> (Inl e, db1)
           | (Inr (rs, blk, reason), db1) \<Rightarrow>
               if blk \<or> falsy rs then
                 (Inr \<lparr>method_name = ''Overlap Control'', blocked = blk, block_reason = reason,
                       results = None, original_results = None,
                       protection_applied =
                         Some (''threshold='' @ py_str E (PFloat overlap_threshold))\<rparr>, db1)
               else
                 (case first_overlap_above overlap_threshold
                         (result_set_hash E (the rs)) history of
                    Some overlap \<Rightarrow>
                      (case log_query_audit E db1 username query
                              (PInt (int (length (the rs)))) True
                              (Some (''Query overlap too high: '' @ format_2f E overlap
                                     @ '' > '' @ py_str E (PFloat overlap_threshold))) of
                         (Inl e, db2) \<Rightarrow> (Inl e, db2)
                       | (Inr _, db2) \<Rightarrow>
                           (Inr \<lparr>method_name = ''Overlap Control'', blocked = True,
                                 block_reason =
                                   Some (''Query overlap too high: '' @ format_2f E overlap),
                                 results = None, original_results = None,
                                 protection_applied =
                                   Some (''threshold='' @ py_str E (PFloat overlap_threshold))\<rparr>,
                            db2))
                  | None \<Rightarrow>
                      (case store_query_history E db1 username query rs of
                         (Inl e, db2) \<Rightarrow> (Inl e, db2)
                       | (Inr _, db2) \<Rightarrow>
                           (Inr \<lparr>method_name = ''Overlap Control'', blocked = False,
                                 block_reason = None, results = rs, original_results = None,
                                 protection_applied =
                                   Some (''threshold='' @ py_str E (PFloat overlap_threshold)
                                         @ '', overlap_acceptable'')\<rparr>,
                            db2)))))"

subsection \<open>Cell Suppression\<close>

text \<open>
  \<^verbatim>\<open>
  for row in results:
      count_col = None
      for key in row.keys():
          if 'count' in key.lower():
              count_col = key
              break
      if count_col and row[count_col] < self.min_cell_size:
          suppressed_count += 1
          suppressed_row = {k: ('SUPPRESSED' if k != count_col else None) for k in row.keys()}
          suppressed_results.append(suppressed_row)
      else:
          suppressed_results.append(row)
  \<close>
  A key that contains \<open>count\<close> is not the empty string, so \<open>count_col\<close> is true
  as soon as it is set.
\<close>

fun find_count_col :: "string list \<Rightarrow> string option" where
  "find_count_col [] = None"
| "find_count_col (key # keys) =
     (if py_in ''count'' (lower key) then Some key else find_count_col keys)"

definition suppressed_row :: "string \<Rightarrow> row \<Rightarrow> row" where
  "suppressed_row count_col r =
     map (\<lambda>(k, v). (k, if k \<noteq> count_col then PStr ''SUPPRESSED'' else PNone)) r"

text \<open>
  The body of the loop for one row: the row to append, and whether it was suppressed.
\<close>

definition suppress_row :: "int \<Rightarrow> row \<Rightarrow> pyerr + (row \<times> bool)" where
  "suppress_row min_cell_size r =
     (case find_count_col (map fst r) of
        None \<Rightarrow> Inr (r, False)
      | Some count_col \<Rightarrow>
          (case getitem r count_col of
             Inl e \<Rightarrow> Inl e
           | Inr v \<Rightarrow>
               (case py_lt_int v min_cell_size of
                  Inl e \<Rightarrow> Inl e
                | Inr True \<Rightarrow> Inr (suppressed_row count_col r, True)
                | Inr False \<Rightarrow> Inr (r, False))))"

fun suppress_loop ::
  "int \<Rightarrow> row list \<Rightarrow> row list \<Rightarrow> nat \<Rightarrow> pyerr + (row list \<times> nat)" where
  "suppress_loop min_cell_size [] suppressed_results suppressed_count =
     Inr (suppressed_results, suppressed_count)"
| "suppress_loop min_cell_size (r # rest) suppressed_results suppressed_count =
     (case suppress_row min_cell_size r of
        Inl e \<Rightarrow> Inl e
      | Inr (r', suppressed) \<Rightarrow>
          suppress_loop min_cell_size rest (suppressed_results @ [r'])
            (if suppressed then Suc suppressed_count else suppressed_count))"

definition CellSuppression_aggregate ::
  "'w env \<Rightarrow> string \<Rightarrow> int \<Rightarrow> 'w database \<Rightarrow> string \<Rightarrow> pyval list option \<Rightarrow> cred
     \<Rightarrow> (pyerr + outcome) \<times> 'w database" where
  "CellSuppression_aggregate E username min_cell_size db query params cr =
     (case execute_with_logging E username db query params cr of
        (Inl e, db1) \<Rightarrow> (Inl e, db1)
      | (Inr (rs, blk, reason), db1) \<Rightarrow>
          if blk \<or> falsy rs then
            (Inr \<lparr>method_name = ''Cell Suppression'', blocked = blk, block_reason = reason,
                  results = None, original_results = None,
                  protection_applied =
                    Some (''min_cell_size='' @ str_int min_cell_size)\<rparr>, db1)
          else
            (case suppress_loop min_cell_size (the rs) [] 0 of
               Inl e \<Rightarrow> (Inl e, db1)
             | Inr (suppressed_results, suppressed_count) \<Rightarrow>
                 (Inr \<lparr>method_name = ''Cell Suppression'', blocked = False, block_reason = None,
                       results = Some suppressed_results, original_results = rs,
                       protection_applied =
                         Some (''min_cell_size='' @ str_int min_cell_size
                               @ '', suppressed='' @ str_int (int suppressed_count))\<rparr>,
                  db1)))"

section \<open>The attacks\<close>

subsection \<open>Arithmetic on Python values\<close>

text \<open>\<open>float(v)\<close>.\<close>

definition py_float :: "'w env \<Rightarrow> pyval \<Rightarrow> pyerr + real" where
  "py_float E v =
     (case v of
        PNone \<Rightarrow> Inl TypeError
      | PBool b \<Rightarrow> Inr (if b then 1 else 0)
      | PInt i \<Rightarrow> Inr (real_of_int i)
      | PFloat r \<Rightarrow> Inr r
      | PDecimal r \<Rightarrow> Inr r
      | PStr s \<Rightarrow> (case float_of_str E s of None \<Rightarrow> Inl ValueError | Some r \<Rightarrow> Inr r)
      | PDate d \<Rightarrow> Inl TypeError)"


definition float_div :: "real \<Rightarrow> pyval \<Rightarrow> pyerr + real" where
  "float_div x v =
     (case int_or_float v of
        None \<Rightarrow> Inl TypeError
      | Some y \<Rightarrow> if y = 0 then Inl ZeroDivisionError else Inr (x / y))"

text \<open>\<open>v - k\<close> for an integer \<open>k\<close>.\<close>

fun sub_int :: "pyval \<Rightarrow> int \<Rightarrow> pyerr + pyval" where
  "sub_int (PInt i) k = Inr (PInt (i - k))"
| "sub_int (PBool b) k = Inr (PInt ((if b then 1 else 0) - k))"
| "sub_int (PFloat r) k = Inr (PFloat (r - real_of_int k))"
| "sub_int (PDecimal r) k = Inr (PDecimal (r - real_of_int k))"
| "sub_int PNone k = Inl TypeError"
| "sub_int (PStr s) k = Inl TypeError"
| "sub_int (PDate d) k = Inl TypeError"

text \<open>The number a numeric value denotes; \<open>==\<close> and the hashing of dictionary keys compare by it.\<close>

fun num_of :: "pyval \<Rightarrow> real option" where
  "num_of (PInt i) = Some (real_of_int i)"
| "num_of (PBool b) = Some (if b then 1 else 0)"
| "num_of (PFloat r) = Some r"
| "num_of (PDecimal r) = Some r"
| "num_of PNone = None"
| "num_of (PStr s) = None"
| "num_of (PDate d) = None"

definition py_eq :: "pyval \<Rightarrow> pyval \<Rightarrow> bool" where
  "py_eq a b =
     (case (num_of a, num_of b) of
        (Some x, Some y) \<Rightarrow> x = y
      | (None, None) \<Rightarrow> a = b
      | _ \<Rightarrow> False)"

text \<open>\<open>v > 0\<close> for a value that \<open>sub_int\<close> returned (a number).\<close>

definition gt_zero :: "pyval \<Rightarrow> bool" where
  "gt_zero v = (case num_of v of Some x \<Rightarrow> x > 0 | None \<Rightarrow> False)"

text \<open>\<open>d[key] = value\<close> on a dictionary kept in insertion order.\<close>

fun dict_set :: "(pyval \<times> 'a) list \<Rightarrow> pyval \<Rightarrow> 'a \<Rightarrow> (pyval \<times> 'a) list" where
  "dict_set [] key v = [(key, v)]"
| "dict_set ((k', v') # rest) key v =
     (if py_eq k' key then (k', v) # rest else (k', v') # dict_set rest key v)"

text \<open>\<open>key in known_salaries\<close>, a dictionary whose keys are strings.\<close>

definition in_known :: "pyval \<Rightarrow> (string \<times> real) list \<Rightarrow> bool" where
  "in_known key known = (case key of PStr s \<Rightarrow> s \<in> set (map fst known) | _ \<Rightarrow> False)"

subsection \<open>The queries\<close>




definition sum_query1 :: string where
  "sum_query1 =
       ''\<newline>''
       @ ''            SELECT \<newline>''
       @ ''                SUM(salary) as total_salary,\<newline>''
       @ ''                COUNT(*) as emp_count\<newline>''
       @ ''            FROM employees\<newline>''
       @ ''            WHERE department = %s\<newline>''
       @ ''        ''"

definition sum_query2 :: string where
  "sum_query2 =
       ''\<newline>''
       @ ''                SELECT name, salary\<newline>''
       @ ''                FROM employees\<newline>''
       @ ''                WHERE department = %s\<newline>''
       @ ''            ''"

subsection \<open>Differencing\<close>



text \<open>\<open>float(rows[0][avg_key])\<close> and \<open>rows[0][count_key]\<close> of the first row.\<close>

definition first_avg_and_count ::
  "'w env \<Rightarrow> row list \<Rightarrow> string \<Rightarrow> string \<Rightarrow> pyerr + (real \<times> pyval)" where
  "first_avg_and_count E rows avg_key count_key =
     (case getitem (hd rows) avg_key of
        Inl e \<Rightarrow> Inl e
      | Inr a \<Rightarrow>
          (case py_float E a of
             Inl e \<Rightarrow> Inl e
           | Inr avg \<Rightarrow>
               (case getitem (hd rows) count_key of
                  Inl e \<Rightarrow> Inl e
                | Inr n \<Rightarrow> Inr (avg, n))))"




subsection \<open>Sum\<close>

record sum_result =
  s_success :: bool
  s_reason :: "string option"
  s_department :: "string option"
  s_total_sum :: "real option"
  s_known_sum :: "real option"
  s_unknown_sum :: "real option"
  s_unknown_count :: "pyval option"
  s_inferred_salaries :: "(pyval \<times> real) list option"
  s_queries_used :: "nat option"

definition sum_failed :: "string \<Rightarrow> sum_result" where
  "sum_failed why =
     \<lparr>s_success = False, s_reason = Some why, s_department = None, s_total_sum = None,
      s_known_sum = None, s_unknown_sum = None, s_unknown_count = None,
      s_inferred_salaries = None, s_queries_used = None\<rparr>"

text \<open>
  \<^verbatim>\<open>
  for emp in all_emps:
      if emp['name'] not in known_salaries:
          inferred_salaries[emp['name']] = unknown_sum
          actual_salary = float(emp['salary'])
          ...
  \<close>
\<close>

fun infer_loop ::
  "'w env \<Rightarrow> (string \<times> real) list \<Rightarrow> real \<Rightarrow> row list \<Rightarrow> (pyval \<times> real) list
     \<Rightarrow> pyerr + (pyval \<times> real) list" where
  "infer_loop E known unknown_sum [] inferred = Inr inferred"
| "infer_loop E known unknown_sum (emp # rest) inferred =
     (case getitem emp ''name'' of
        Inl e \<Rightarrow> Inl e
      | Inr name \<Rightarrow>
          if in_known name known then infer_loop E known unknown_sum rest inferred
          else
            (case getitem emp ''salary'' of
               Inl e \<Rightarrow> Inl e
             | Inr sal \<Rightarrow>
                 (case py_float E sal of
                    Inl e \<Rightarrow> Inl e
                  | Inr actual_salary \<Rightarrow>
                      infer_loop E known unknown_sum rest
                        (dict_set inferred name unknown_sum))))"

text \<open>
  \<open>for emp in all_emps\<close> where \<open>all_emps\<close> is what \<open>execute_query\<close> returned:
  iterating over \<open>None\<close> raises \<open>TypeError\<close>.
\<close>

definition infer_unknown ::
  "'w env \<Rightarrow> (string \<times> real) list \<Rightarrow> real \<Rightarrow> row list option
     \<Rightarrow> pyerr + (pyval \<times> real) list" where
  "infer_unknown E known unknown_sum all_emps =
     (case all_emps of
        None \<Rightarrow> Inl TypeError
      | Some emps \<Rightarrow> infer_loop E known unknown_sum emps [])"

definition SumAttack_attack ::
  "'w env \<Rightarrow> 'w database \<Rightarrow> string \<Rightarrow> (string \<times> real) list \<Rightarrow> cred
     \<Rightarrow> (pyerr + sum_result) \<times> 'w database" where
  "SumAttack_attack E db department known_salaries cr =
     (case attack_execute_query E db sum_query1 (Some [PStr department]) cr of
        (result1, db1) \<Rightarrow>
          if falsy result1 then (Inr (sum_failed ''Failed to get department totals''), db1)
          else
            (case first_avg_and_count E (the result1) ''total_salary'' ''emp_count'' of
               Inl e \<Rightarrow> (Inl e, db1)
             | Inr (total_sum, total_count) \<Rightarrow>
                 (let known_sum = sum_list (map snd known_salaries);
                      known_count = int (length known_salaries);
                      unknown_sum = total_sum - known_sum
                  in case sub_int total_count known_count of
                       Inl e \<Rightarrow> (Inl e, db1)
                     | Inr unknown_count \<Rightarrow>
                         (case (if gt_zero unknown_count
                                then float_div unknown_sum unknown_count
                                else Inr 0) of
                            Inl e \<Rightarrow> (Inl e, db1)
                          | Inr avg_unknown \<Rightarrow>
                              if py_eq unknown_count (PInt 1) then
                                (case attack_execute_query E db1 sum_query2
                                        (Some [PStr department]) cr of
                                   (all_emps, db2) \<Rightarrow>
                                     (case infer_unknown E known_salaries unknown_sum all_emps of
                                        Inl e \<Rightarrow> (Inl e, db2)
                                      | Inr inferred_salaries \<Rightarrow>
                                          (Inr \<lparr>s_success = True, s_reason = None,
                                                s_department = Some department,
                                                s_total_sum = Some total_sum,
                                                s_known_sum = Some known_sum,
                                                s_unknown_sum = Some unknown_sum,
                                                s_unknown_count = Some unknown_count,
                                                s_inferred_salaries = Some inferred_salaries,
                                                s_queries_used = Some 2\<rparr>, db2)))
                              else
                                (Inr \<lparr>s_success = False, s_reason = None,
                                      s_department = Some department,
                                      s_total_sum = Some total_sum,
                                      s_known_sum = Some known_sum,
                                      s_unknown_sum = Some unknown_sum,
                                      s_unknown_count = Some unknown_count,
                                      s_inferred_salaries = Some [],
                                      s_queries_used = Some 2\<rparr>, db1)))))"

section \<open>A store for the examples\<close>

text \<open>
  The examples below run the model against a store that answers a statement by its
  text alone; its state counts the statements it has seen, and it rejects the
  bookkeeping statements whose number is listed in \<open>rejected\<close>. The digest, the
  texts and the sampler are stand-ins.
\<close>

definition example_env :: "(string \<Rightarrow> string + row list) \<Rightarrow> nat list \<Rightarrow> nat env" where
  "example_env answers rejected =
     \<lparr>run = (\<lambda>w query params cr. (answers query, Suc w)),
      fault = (\<lambda>w. (if w \<in> set rejected then Some ''audit unavailable'' else None, Suc w)),
      sha256 = (\<lambda>s. of_nat (length s)),
      result_str = (\<lambda>rs. concat (map (\<lambda>r. concat (map fst r)) rs)),
      str_other = (\<lambda>v. ''?''),
      float_of_str = (\<lambda>s. None),
      format_2f = (\<lambda>x. ''?''),
      laplace = (\<lambda>loc scale w. (scale, Suc w))\<rparr>"

definition empty_db :: "nat database" where
  "empty_db = \<lparr>world = 0, query_audit = [], query_history = []\<rparr>"

definition no_cred :: cred where
  "no_cred = (None, None)"

text \<open>A grouped count over the employees, and a store that knows this one query.\<close>

definition department_query :: string where
  "department_query =
     ''SELECT department, COUNT(*) AS emp_count FROM employees GROUP BY department''"

definition department_rows :: "row list" where
  "department_rows =
     [[(''department'', PStr ''Engineering''), (''emp_count'', PInt 12)],
      [(''department'', PStr ''Operations''), (''emp_count'', PInt 2)]]"

definition department_store :: "string \<Rightarrow> string + row list" where
  "department_store q =
     (if q = department_query then Inr department_rows
      else if q = convert_to_count_query department_query
      then Inr [[(''count'', PInt 12)], [(''count'', PInt 2)]]
      else Inl ''syntax error'')"


text \<open>A query with a misspelt column: its count query runs, the query itself does not.\<close>

definition typo_query :: string where
  "typo_query = ''SELECT salry FROM employees''"

definition typo_store :: "string \<Rightarrow> string + row list" where
  "typo_store q =
     (if q = convert_to_count_query typo_query then Inr [[(''count'', PInt 20)]]
      else Inl ''column salry does not exist'')"

text \<open>
  A column is count-like when its lower-cased name contains \<open>count\<close>. A row whose
  first count-like column holds a number can be compared with the minimum cell size.
\<close>

definition count_like :: "string \<Rightarrow> bool" where
  "count_like k = sublist ''count'' (lower k)"

definition count_is_number :: "row \<Rightarrow> bool" where
  "count_is_number r =
     (case find_count_col (map fst r) of
        None \<Rightarrow> True
      | Some c \<Rightarrow> (case map_of r c of None \<Rightarrow> False | Some v \<Rightarrow> num_of v \<noteq> None))"

text \<open>A grouped query with two counts; the second count of the first group is small.\<close>

definition bonus_query :: string where
  "bonus_query =
     ''SELECT department, COUNT(*) AS emp_count, COUNT(bonus) AS bonus_count FROM employees GROUP BY department''"

definition bonus_rows :: "row list" where
  "bonus_rows =
     [[(''department'', PStr ''Engineering''), (''emp_count'', PInt 12), (''bonus_count'', PInt 1)]]"

definition bonus_store :: "string \<Rightarrow> string + row list" where
  "bonus_store q = (if q = bonus_query then Inr bonus_rows else Inl ''syntax error'')"





section \<open>Properties\<close>

subsection \<open>Searching in strings\<close>

lemma startswith_prefix: "startswith s p \<longleftrightarrow> prefix p s"
  by (induction s p rule: startswith.induct) auto

lemma py_in_sublist: "py_in sub s \<longleftrightarrow> sublist sub s"
  by (induction s) (auto simp: startswith_prefix sublist_Cons_right)




lemma first_occurrence:
  "sublist sub s \<Longrightarrow> sub \<noteq> [] \<Longrightarrow>
   \<exists>pre post. s = pre @ sub @ post \<and> \<not> sublist sub (pre @ butlast sub)"
proof (induction s)
  case Nil
  then show ?case by simp
next
  case (Cons c cs)
  show ?case
  proof (cases "prefix sub (c # cs)")
    case True
    then obtain post where "c # cs = sub @ post" by (auto simp: prefix_def)
    moreover have "\<not> sublist sub (butlast sub)"
    proof
      assume "sublist sub (butlast sub)"
      then have "length sub \<le> length (butlast sub)" by (rule sublist_length_le)
      moreover have "0 < length sub" using Cons.prems(2) by simp
      ultimately show False by (simp del: length_greater_0_conv)
    qed
    ultimately show ?thesis by (intro exI[of _ "[]"] exI[of _ post]) simp
  next
    case False
    then have "sublist sub cs" using Cons.prems(1) by (simp add: sublist_Cons_right)
    then obtain pre post where pp: "cs = pre @ sub @ post" "\<not> sublist sub (pre @ butlast sub)"
      using Cons.IH Cons.prems(2) by blast
    have "\<not> prefix sub (c # pre @ butlast sub)"
    proof
      assume "prefix sub (c # pre @ butlast sub)"
      moreover have "prefix (c # pre @ butlast sub) (c # cs)"
        using pp(1) Cons.prems(2) by (metis append_butlast_last_id prefixI append.assoc same_prefix_prefix Cons_prefix_Cons)
      ultimately show False using False by (metis prefix_order.trans)
    qed
    then have "\<not> sublist sub ((c # pre) @ butlast sub)"
      using pp(2) by (simp add: sublist_Cons_right)
    then show ?thesis using pp(1) by (intro exI[of _ "c # pre"] exI[of _ post]) simp
  qed
qed










subsection \<open>The gateway and the audit table\<close>

lemma execute_query_tables:
  "execute_query E db q ps cr = (r, db') \<Longrightarrow>
   query_audit db' = query_audit db \<and> query_history db' = query_history db"
  by (auto simp: execute_query_def split: prod.splits sum.splits)

lemma log_query_audit_Inr:
  "log_query_audit E db u q c b r = (Inr x, db') \<Longrightarrow>
   query_audit db' =
     \<lparr>au_username = u, au_query_text = q, au_result_count = c, au_was_blocked = b,
      au_block_reason = r\<rparr> # query_audit db
   \<and> query_history db' = query_history db"
  by (auto simp: log_query_audit_def split: prod.splits option.splits)

lemma log_query_audit_Inl:
  "log_query_audit E db u q c b r = (Inl e, db') \<Longrightarrow>
   query_audit db' = query_audit db \<and> query_history db' = query_history db"
  by (auto simp: log_query_audit_def split: prod.splits option.splits)

lemma logging_handler_Inr:
  "logging_handler E u db q e = (Inr (rs, blk, reason), db') \<Longrightarrow>
   rs = None \<and> blk \<and> reason = Some (str_of_err e)
   \<and> query_audit db' =
        \<lparr>au_username = u, au_query_text = q, au_result_count = PInt 0,
         au_was_blocked = True, au_block_reason = Some (str_of_err e)\<rparr> # query_audit db
   \<and> query_history db' = query_history db"
  by (auto simp: logging_handler_def split: prod.splits sum.splits dest: log_query_audit_Inr)

lemma logging_handler_Inl:
  "logging_handler E u db q e = (Inl e', db') \<Longrightarrow>
   query_audit db' = query_audit db \<and> query_history db' = query_history db"
  by (auto simp: logging_handler_def split: prod.splits sum.splits dest: log_query_audit_Inl)

lemma execute_with_logging_Inr:
  assumes "execute_with_logging E u db q ps cr = (Inr (rs, blk, reason), db')"
  shows "query_audit db' =
           \<lparr>au_username = u, au_query_text = q,
            au_result_count = PInt (case rs of None \<Rightarrow> 0 | Some rows \<Rightarrow> int (length rows)),
            au_was_blocked = blk, au_block_reason = reason\<rparr> # query_audit db"
    and "query_history db' = query_history db"
    and "blk \<longleftrightarrow> rs = None"
    and "blk \<longleftrightarrow> reason \<noteq> None"
  using assms
  by (auto simp: execute_with_logging_def split: prod.splits sum.splits
           dest!: execute_query_tables log_query_audit_Inr log_query_audit_Inl logging_handler_Inr)

lemma execute_with_logging_Inl:
  assumes "execute_with_logging E u db q ps cr = (Inl e, db')"
  shows "query_audit db' = query_audit db \<and> query_history db' = query_history db"
  using assms
  by (auto simp: execute_with_logging_def split: prod.splits sum.splits
           dest!: execute_query_tables log_query_audit_Inl logging_handler_Inl)

lemma attack_execute_query_tables:
  "query_audit (snd (attack_execute_query E db q ps cr)) = query_audit db"
  by (auto simp: attack_execute_query_def split: prod.splits sum.splits dest: execute_query_tables)

subsection \<open>Audit records (C2)\<close>

text \<open>
  Claim C2, as the code has it. Whenever \<open>execute_with_logging\<close> returns, it has
  written exactly one audit record: the caller, the query text, the number of rows
  (0 on the failure path), the blocked flag and the reason it returns, on the success
  path and on the failure path alike. Where it leaves with an exception (the audit
  INSERT of the handler was rejected) it has written none. The attacks' own
  \<open>execute_query\<close> goes to the store directly and writes no audit record.
\<close>

theorem gateway_audit_record:
  "(execute_with_logging E u db q ps cr = (Inr (rs, blk, reason), db1) \<longrightarrow>
      query_audit db1 =
        \<lparr>au_username = u, au_query_text = q,
         au_result_count = PInt (case rs of None \<Rightarrow> 0 | Some rows \<Rightarrow> int (length rows)),
         au_was_blocked = blk, au_block_reason = reason\<rparr> # query_audit db)
   \<and> (execute_with_logging E u db q ps cr = (Inl e, db2) \<longrightarrow>
      query_audit db2 = query_audit db)
   \<and> query_audit (snd (attack_execute_query E db q ps cr)) = query_audit db"
  using execute_with_logging_Inr(1)[of E u db q ps cr rs blk reason db1]
        execute_with_logging_Inl[of E u db q ps cr e db2]
        attack_execute_query_tables[of E db q ps cr]
  by blast

text \<open>
  C2 on a query that succeeds, on a query the store rejects, and on a rejected query
  whose audit INSERT is rejected as well.
\<close>

theorem gateway_audit_record_witness:
  "query_audit (snd (execute_with_logging (example_env (\<lambda>q. Inr [[(''n'', PInt 7)]]) [])
                       ''alice'' empty_db ''SELECT 7 AS n'' None no_cred))
     = [\<lparr>au_username = ''alice'', au_query_text = ''SELECT 7 AS n'',
         au_result_count = PInt 1, au_was_blocked = False, au_block_reason = None\<rparr>]
   \<and> query_audit (snd (execute_with_logging (example_env (\<lambda>q. Inl ''permission denied'') [])
                       ''alice'' empty_db ''SELECT 7 AS n'' None no_cred))
     = [\<lparr>au_username = ''alice'', au_query_text = ''SELECT 7 AS n'',
         au_result_count = PInt 0, au_was_blocked = True,
         au_block_reason = Some ''permission denied''\<rparr>]
   \<and> query_audit (snd (execute_with_logging (example_env (\<lambda>q. Inl ''permission denied'') [Suc 0])
                       ''alice'' empty_db ''SELECT 7 AS n'' None no_cred))
     = []"
proof -
  have ok: "execute_with_logging (example_env (\<lambda>q. Inr [[(''n'', PInt 7)]]) [])
              ''alice'' empty_db ''SELECT 7 AS n'' None no_cred
            = (Inr (Some [[(''n'', PInt 7)]], False, None),
               \<lparr>world = 2,
                query_audit = [\<lparr>au_username = ''alice'', au_query_text = ''SELECT 7 AS n'',
                   au_result_count = PInt 1, au_was_blocked = False, au_block_reason = None\<rparr>],
                query_history = []\<rparr>)"
    by code_simp
  have failed: "execute_with_logging (example_env (\<lambda>q. Inl ''permission denied'') [])
              ''alice'' empty_db ''SELECT 7 AS n'' None no_cred
            = (Inr (None, True, Some ''permission denied''),
               \<lparr>world = 2,
                query_audit = [\<lparr>au_username = ''alice'', au_query_text = ''SELECT 7 AS n'',
                   au_result_count = PInt 0, au_was_blocked = True,
                   au_block_reason = Some ''permission denied''\<rparr>],
                query_history = []\<rparr>)"
    by code_simp
  have raised: "execute_with_logging (example_env (\<lambda>q. Inl ''permission denied'') [Suc 0])
              ''alice'' empty_db ''SELECT 7 AS n'' None no_cred
            = (Inl (DatabaseError ''audit unavailable''),
               \<lparr>world = 2, query_audit = [], query_history = []\<rparr>)"
    by code_simp
  have e: "query_audit empty_db = []" by (simp add: empty_db_def)
  show ?thesis
    using gateway_audit_record[of _ "''alice''" empty_db "''SELECT 7 AS n''" None no_cred, THEN conjunct1, rule_format, OF ok]
          gateway_audit_record[of _ "''alice''" empty_db "''SELECT 7 AS n''" None no_cred, THEN conjunct1, rule_format, OF failed]
          gateway_audit_record[of _ "''alice''" empty_db "''SELECT 7 AS n''" None no_cred, THEN conjunct2, THEN conjunct1, rule_format, OF raised]
    by (simp add: ok failed raised e)
qed

text \<open>
  C2 as stated fails for the attacks: after an attack's query the audit table does not
  hold one record more.
\<close>

theorem attack_query_writes_no_audit_record:
  "length (query_audit (snd (attack_execute_query (example_env (\<lambda>q. Inr [[(''n'', PInt 7)]]) [])
                               empty_db ''SELECT 7 AS n'' None no_cred)))
     \<noteq> length (query_audit empty_db) + 1"
  by code_simp

subsection \<open>Blocked outcomes and rows (C1)\<close>

lemma returned_outcome:
  "\<not> isl (fst X) \<Longrightarrow> X = (Inr (projr (fst X)), snd X)"
  by (cases X; cases "fst X") auto




lemma noisy_rows_length:
  "noisy_rows E eps rs w = (Inr rs', w') \<Longrightarrow> length rs' = length rs"
  by (induction rs arbitrary: w rs' w') (auto split: prod.splits sum.splits)

lemma suppress_loop_length:
  "suppress_loop m rs acc n = Inr (out, k) \<Longrightarrow> length out = length acc + length rs"
  by (induction rs arbitrary: acc n) (auto split: sum.splits prod.splits)








subsection \<open>Minimum Size Restriction (C3)\<close>

lemma MinimumSize_runs:
  assumes "execute_with_logging E u db (convert_to_count_query q) ps cr
             = (Inr (Some crs, False, None), db1)"
    and "derived_count (Some crs) = Inr (PInt c)"
    and "m \<le> c"
    and "execute_with_logging E u db1 q ps cr = (Inr (rs, blk, reason), db2)"
  shows "\<exists>out. MinimumSizeRestriction_aggregate E u m db q ps cr = (Inr out, db2)
           \<and> blocked out = blk \<and> block_reason out = reason \<and> results out = rs"
  using assms by (simp add: MinimumSizeRestriction_aggregate_def)

lemma MinimumSize_blocks:
  assumes "execute_with_logging E u db (convert_to_count_query q) ps cr
             = (Inr (Some crs, False, None), db1)"
    and "derived_count (Some crs) = Inr (PInt c)"
    and "c < m"
  shows "log_query_audit E db1 u q (PInt c) True
             (Some (''Result set too small: '' @ str_int c @ '' < '' @ str_int m))
           = (Inr (), db2) \<Longrightarrow>
         \<exists>out. MinimumSizeRestriction_aggregate E u m db q ps cr = (Inr out, db2)
           \<and> blocked out \<and> results out = None
           \<and> block_reason out
               = Some (''Result set too small: '' @ str_int c @ '' < '' @ str_int m)"
    and "MinimumSizeRestriction_aggregate E u m db q ps cr = (Inr out', d) \<Longrightarrow>
         blocked out' \<and> results out' = None
           \<and> block_reason out'
               = Some (''Result set too small: '' @ str_int c @ '' < '' @ str_int m)"
  using assms
  by (auto simp: MinimumSizeRestriction_aggregate_def too_small_reason_def py_str_def
           split: prod.splits sum.splits)

text \<open>
  Claim C3, as the code has it. Let the count query have run and let the derived
  count be the integer \<open>c\<close>. If \<open>c\<close> is at least the minimum, the strategy executes
  the query and returns what the gateway returns: the executed rows, unblocked, when
  the execution succeeds, and a blocked outcome with the gateway's reason when the
  execution fails. If \<open>c\<close> is below the minimum, the strategy never returns an
  unblocked outcome: once the audit INSERT is accepted it returns \<open>blocked = True\<close>
  without rows, and its reason spells the count and the minimum.
\<close>

theorem minimum_size_threshold:
  assumes "execute_with_logging E u db (convert_to_count_query q) ps cr
             = (Inr (Some crs, False, None), db1)"
    and "derived_count (Some crs) = Inr (PInt c)"
  shows "(m \<le> c \<and> execute_with_logging E u db1 q ps cr = (Inr (Some rows, False, None), db2) \<longrightarrow>
            (\<exists>out. MinimumSizeRestriction_aggregate E u m db q ps cr = (Inr out, db2)
               \<and> \<not> blocked out \<and> results out = Some rows))
       \<and> (m \<le> c \<and> execute_with_logging E u db1 q ps cr = (Inr (None, True, reason), db3) \<longrightarrow>
            (\<exists>out. MinimumSizeRestriction_aggregate E u m db q ps cr = (Inr out, db3)
               \<and> blocked out \<and> block_reason out = reason \<and> results out = None))
       \<and> (c < m \<and> log_query_audit E db1 u q (PInt c) True
                      (Some (''Result set too small: '' @ str_int c @ '' < '' @ str_int m))
                    = (Inr (), db4) \<longrightarrow>
            (\<exists>out. MinimumSizeRestriction_aggregate E u m db q ps cr = (Inr out, db4)
               \<and> blocked out \<and> results out = None
               \<and> block_reason out
                   = Some (''Result set too small: '' @ str_int c @ '' < '' @ str_int m)))
       \<and> (c < m \<and> MinimumSizeRestriction_aggregate E u m db q ps cr = (Inr out', d) \<longrightarrow>
            blocked out' \<and> results out' = None
               \<and> block_reason out'
                   = Some (''Result set too small: '' @ str_int c @ '' < '' @ str_int m))"
  using MinimumSize_runs[OF assms, of m "Some rows" False None db2]
        MinimumSize_runs[OF assms, of m None True reason db3]
        MinimumSize_blocks(1)[OF assms, of m db4]
        MinimumSize_blocks(2)[OF assms, of m out' d]
  by auto

text \<open>
  C3 as stated fails: the derived count of the misspelt query is 20, the minimum is 5,
  and the outcome is blocked, because the query itself does not execute.
\<close>

theorem minimum_size_blocks_despite_count:
  "derived_count (fst (projr (fst (execute_with_logging (example_env typo_store []) ''analyst''
                          empty_db (convert_to_count_query typo_query) None no_cred))))
     = Inr (PInt 20)
   \<and> fst (MinimumSizeRestriction_aggregate (example_env typo_store []) ''analyst'' 5
            empty_db typo_query None no_cred)
     = Inr \<lparr>method_name = ''Minimum Size Restriction'', blocked = True,
            block_reason = Some ''column salry does not exist'', results = None,
            original_results = None,
            protection_applied = Some ''min_size=5, actual_size=20''\<rparr>"
  by code_simp


text \<open>
  C3 on the grouped count with minimum 5 (the derived count is 12) and with
  minimum 20, and on the misspelt query.
\<close>

theorem minimum_size_threshold_witness:
  "(\<exists>out d. MinimumSizeRestriction_aggregate (example_env department_store []) ''analyst'' 5
                empty_db department_query None no_cred = (Inr out, d)
             \<and> \<not> blocked out \<and> results out = Some department_rows)
   \<and> (\<exists>out d. MinimumSizeRestriction_aggregate (example_env department_store []) ''analyst'' 20
                empty_db department_query None no_cred = (Inr out, d)
             \<and> blocked out \<and> results out = None
             \<and> block_reason out = Some ''Result set too small: 12 < 20'')
   \<and> (\<exists>out d. MinimumSizeRestriction_aggregate (example_env typo_store []) ''analyst'' 5
                empty_db typo_query None no_cred = (Inr out, d)
             \<and> blocked out \<and> results out = None
             \<and> block_reason out = Some ''column salry does not exist'')"
proof -
  define E where "E = example_env department_store []"
  define D1 where
    "D1 = snd (execute_with_logging E ''analyst'' empty_db
                 (convert_to_count_query department_query) None no_cred)"
  define D2 where "D2 = snd (execute_with_logging E ''analyst'' D1 department_query None no_cred)"
  define D4 where
    "D4 = snd (log_query_audit E D1 ''analyst'' department_query (PInt 12) True
                 (Some (''Result set too small: '' @ str_int 12 @ '' < '' @ str_int 20)))"
  have g1: "execute_with_logging E ''analyst'' empty_db
              (convert_to_count_query department_query) None no_cred
            = (Inr (Some [[(''count'', PInt 12)], [(''count'', PInt 2)]], False, None), D1)"
    unfolding D1_def E_def by code_simp
  have dc: "derived_count (Some [[(''count'', PInt 12)], [(''count'', PInt 2)]]) = Inr (PInt 12)"
    by code_simp
  have g2: "execute_with_logging E ''analyst'' D1 department_query None no_cred
            = (Inr (Some department_rows, False, None), D2)"
    unfolding D2_def D1_def E_def by code_simp
  have l4: "log_query_audit E D1 ''analyst'' department_query (PInt 12) True
              (Some (''Result set too small: '' @ str_int 12 @ '' < '' @ str_int 20))
            = (Inr (), D4)"
    unfolding D4_def D1_def E_def by code_simp
  have reason_text: "''Result set too small: '' @ str_int 12 @ '' < '' @ str_int 20
             = ''Result set too small: 12 < 20''"
    by code_simp
  define F where "F = example_env typo_store []"
  define T1 where
    "T1 = snd (execute_with_logging F ''analyst'' empty_db
                 (convert_to_count_query typo_query) None no_cred)"
  define T3 where "T3 = snd (execute_with_logging F ''analyst'' T1 typo_query None no_cred)"
  have t1: "execute_with_logging F ''analyst'' empty_db
              (convert_to_count_query typo_query) None no_cred
            = (Inr (Some [[(''count'', PInt 20)]], False, None), T1)"
    unfolding T1_def F_def by code_simp
  have tc: "derived_count (Some [[(''count'', PInt 20)]]) = Inr (PInt 20)"
    by code_simp
  have t3: "execute_with_logging F ''analyst'' T1 typo_query None no_cred
            = (Inr (None, True, Some ''column salry does not exist''), T3)"
    unfolding T3_def T1_def F_def by code_simp
  have a: "\<exists>out. MinimumSizeRestriction_aggregate E ''analyst'' 5 empty_db department_query
                   None no_cred = (Inr out, D2)
                 \<and> \<not> blocked out \<and> results out = Some department_rows"
    using minimum_size_threshold[OF g1 dc, of 5 department_rows D2] g2 by simp
  have b: "\<exists>out. MinimumSizeRestriction_aggregate E ''analyst'' 20 empty_db department_query
                   None no_cred = (Inr out, D4)
                 \<and> blocked out \<and> results out = None
                 \<and> block_reason out = Some ''Result set too small: 12 < 20''"
    using minimum_size_threshold[OF g1 dc, of 20 _ _ _ _ D4] l4 unfolding reason_text by simp
  have c: "\<exists>out. MinimumSizeRestriction_aggregate F ''analyst'' 5 empty_db typo_query
                   None no_cred = (Inr out, T3)
                 \<and> blocked out \<and> block_reason out = Some ''column salry does not exist''
                 \<and> results out = None"
    using minimum_size_threshold[OF t1 tc, of 5 _ _ "Some ''column salry does not exist''" T3] t3
    by simp
  show ?thesis using a b c unfolding E_def F_def by blast
qed

subsection \<open>Overlap Control (C4)\<close>

lemma length_bin_digits:
  "n < 2 ^ k \<Longrightarrow> 0 < k \<Longrightarrow> length (bin_digits n) \<le> k"
proof (induction n arbitrary: k rule: bin_digits.induct)
  case (1 n)
  show ?case
  proof (cases "n < 2")
    case True
    then show ?thesis using "1.prems" by (simp add: bin_digits.simps[of n])
  next
    case False
    then obtain j where k: "k = Suc j" using "1.prems" by (cases k) auto
    have "0 < j" using False "1.prems" k by (cases j) auto
    moreover have "n div 2 < 2 ^ j" using "1.prems" k by auto
    ultimately have "length (bin_digits (n div 2)) \<le> j" using "1.IH"[OF False] by blast
    then show ?thesis using False k by (simp add: bin_digits.simps[of n])
  qed
qed

lemma length_zfill: "length s \<le> w \<Longrightarrow> length (zfill w s) = w"
  by (simp add: zfill_def)

lemma length_digest_bits: "length (zfill 256 (bin_digits (unat (h :: sha256_digest)))) = 256"
proof -
  have "unat h < 2 ^ 256" using unsigned_less[of h] by simp
  then have "length (bin_digits (unat h)) \<le> 256" by (rule length_bin_digits) simp
  then show ?thesis by (rule length_zfill)
qed

lemma matches_self: "length (filter (\<lambda>(b1, b2). b1 = b2) (zip xs xs)) = length xs"
  by (induction xs) auto

lemma calculate_overlap_self: "calculate_overlap h h = 1"
  by (simp add: calculate_overlap_def Let_def matches_self length_digest_bits)

lemma first_overlap_above_finds:
  "entry \<in> set history \<Longrightarrow> h_result_set_hash entry = Some stored \<Longrightarrow>
   calculate_overlap cur stored > t \<Longrightarrow>
   \<exists>ov. first_overlap_above t cur history = Some ov"
  by (induction history) (auto simp: Let_def split: option.splits)

lemma get_query_history_Inr:
  "get_query_history E db u n = (Inr history, db0) \<Longrightarrow>
   history = take n (filter (\<lambda>h. h_username h = u) (query_history db))
   \<and> query_history db0 = query_history db \<and> query_audit db0 = query_audit db"
  by (auto simp: get_query_history_def split: prod.splits option.splits)

lemma store_query_history_Inr:
  "store_query_history E db u q (Some rows) = (Inr x, db') \<Longrightarrow> rows \<noteq> [] \<Longrightarrow>
   query_history db' =
     \<lparr>h_username = u, h_query_hash = sha256 E q, h_query_text = q,
      h_result_set_hash = Some (result_set_hash E rows)\<rparr> # query_history db"
  by (auto simp: store_query_history_def split: prod.splits option.splits)

lemma OverlapControl_blocks:
  assumes "get_query_history E db u 20 = (Inr history, db0)"
    and "execute_with_logging E u db0 q ps cr = (Inr (Some rows, False, None), db1)"
    and "rows \<noteq> []"
    and "entry \<in> set history" "h_result_set_hash entry = Some stored"
    and "calculate_overlap (result_set_hash E rows) stored > t"
  shows "OverlapControl_aggregate E u t db q ps cr = (Inr out, d) \<Longrightarrow>
           blocked out \<and> results out = None"
    and "fst (fault E (world db1)) = None \<Longrightarrow>
           \<exists>out d. OverlapControl_aggregate E u t db q ps cr = (Inr out, d)
                  \<and> blocked out \<and> results out = None"
proof -
  obtain ov where ov: "first_overlap_above t (result_set_hash E rows) history = Some ov"
    using first_overlap_above_finds[OF assms(4,5,6)] by blast
  show "OverlapControl_aggregate E u t db q ps cr = (Inr out, d) \<Longrightarrow>
           blocked out \<and> results out = None"
    using assms(1,2,3) ov
    by (auto simp: OverlapControl_aggregate_def split: prod.splits sum.splits)
  show "fst (fault E (world db1)) = None \<Longrightarrow>
           \<exists>out d. OverlapControl_aggregate E u t db q ps cr = (Inr out, d)
                  \<and> blocked out \<and> results out = None"
    using assms(1,2,3) ov
    by (auto simp: OverlapControl_aggregate_def log_query_audit_def
             split: prod.splits sum.splits option.splits)
qed

lemma OverlapControl_appends:
  assumes "OverlapControl_aggregate E u t db q ps cr = (Inr out, d)"
    and "results out = Some rows"
  shows "query_history d =
           \<lparr>h_username = u, h_query_hash = sha256 E q, h_query_text = q,
            h_result_set_hash = Some (result_set_hash E rows)\<rparr> # query_history db"
  using assms
  by (auto simp: OverlapControl_aggregate_def
           split: prod.splits sum.splits if_splits option.splits
           dest!: get_query_history_Inr execute_with_logging_Inr(2) store_query_history_Inr)


text \<open>
  Claim C4. The overlap of a digest with itself is exactly 1. When Overlap Control
  returns rows, it has put an entry for the caller with the hash of these rows at the
  head of the history. The history a later call reads is the caller's 20 most recent
  entries; if one of them has a stored hash whose overlap with the hash of the rows of
  the new query is above the threshold, every outcome the call returns is blocked and
  without rows, and the call does return once its audit INSERT is accepted.
\<close>

theorem overlap_control_blocks_similar:
  "calculate_overlap h h = 1
   \<and> (OverlapControl_aggregate E u t db q ps cr = (Inr out', d') \<and> results out' = Some rows' \<longrightarrow>
        query_history d' =
          \<lparr>h_username = u, h_query_hash = sha256 E q, h_query_text = q,
           h_result_set_hash = Some (result_set_hash E rows')\<rparr> # query_history db)
   \<and> (get_query_history E db u 20 = (Inr history, db0) \<longrightarrow>
        history = take 20 (filter (\<lambda>e. h_username e = u) (query_history db)))
   \<and> (get_query_history E db u 20 = (Inr history, db0)
        \<and> execute_with_logging E u db0 q ps cr = (Inr (Some rows, False, None), db1)
        \<and> rows \<noteq> []
        \<and> entry \<in> set history \<and> h_result_set_hash entry = Some stored
        \<and> calculate_overlap (result_set_hash E rows) stored > t \<longrightarrow>
          (\<forall>out d. OverlapControl_aggregate E u t db q ps cr = (Inr out, d) \<longrightarrow>
                     blocked out \<and> results out = None)
          \<and> (fst (fault E (world db1)) = None \<longrightarrow>
               (\<exists>out d. OverlapControl_aggregate E u t db q ps cr = (Inr out, d)
                        \<and> blocked out \<and> results out = None)))"
proof (intro conjI impI allI)
  show "calculate_overlap h h = 1" by (rule calculate_overlap_self)
next
  assume "OverlapControl_aggregate E u t db q ps cr = (Inr out', d') \<and> results out' = Some rows'"
  then show "query_history d' =
          \<lparr>h_username = u, h_query_hash = sha256 E q, h_query_text = q,
           h_result_set_hash = Some (result_set_hash E rows')\<rparr> # query_history db"
    using OverlapControl_appends by blast
next
  assume "get_query_history E db u 20 = (Inr history, db0)"
  then show "history = take 20 (filter (\<lambda>e. h_username e = u) (query_history db))"
    using get_query_history_Inr by blast
next
  fix out d
  assume "get_query_history E db u 20 = (Inr history, db0)
        \<and> execute_with_logging E u db0 q ps cr = (Inr (Some rows, False, None), db1)
        \<and> rows \<noteq> []
        \<and> entry \<in> set history \<and> h_result_set_hash entry = Some stored
        \<and> calculate_overlap (result_set_hash E rows) stored > t"
    and "OverlapControl_aggregate E u t db q ps cr = (Inr out, d)"
  then show "blocked out" and "results out = None"
    using OverlapControl_blocks(1)[of E db u history db0 q ps cr rows db1 entry stored t out d]
    by blast+
next
  assume "get_query_history E db u 20 = (Inr history, db0)
        \<and> execute_with_logging E u db0 q ps cr = (Inr (Some rows, False, None), db1)
        \<and> rows \<noteq> []
        \<and> entry \<in> set history \<and> h_result_set_hash entry = Some stored
        \<and> calculate_overlap (result_set_hash E rows) stored > t"
    and "fst (fault E (world db1)) = None"
  then show "\<exists>out d. OverlapControl_aggregate E u t db q ps cr = (Inr out, d)
                        \<and> blocked out \<and> results out = None"
    using OverlapControl_blocks(2)[of E db u history db0 q ps cr rows db1 entry stored t]
    by blast
qed

text \<open>
  C4 on the grouped count asked twice by the same caller: the first call returns the
  rows, the second is blocked.
\<close>

theorem overlap_control_blocks_similar_witness:
  "(let E = example_env department_store [];
        first = OverlapControl_aggregate E ''analyst'' (4 / 5) empty_db department_query None no_cred
    in results (projr (fst first)) = Some department_rows
       \<and> (\<exists>out d. OverlapControl_aggregate E ''analyst'' (4 / 5) (snd first) department_query
                     None no_cred = (Inr out, d)
                  \<and> blocked out \<and> results out = None))"
proof -
  define E where "E = example_env department_store []"
  define X1 where
    "X1 = OverlapControl_aggregate E ''analyst'' (4 / 5) empty_db department_query None no_cred"
  define H where "H = get_query_history E (snd X1) ''analyst'' 20"
  define G where "G = execute_with_logging E ''analyst'' (snd H) department_query None no_cred"
  define entry where
    "entry = \<lparr>h_username = ''analyst'', h_query_hash = sha256 E department_query,
              h_query_text = department_query,
              h_result_set_hash = Some (result_set_hash E department_rows)\<rparr>"
  have r1: "\<not> isl (fst X1)" and res1: "results (projr (fst X1)) = Some department_rows"
    unfolding X1_def E_def by code_simp+
  have x1: "X1 = (Inr (projr (fst X1)), snd X1)" using r1 by (rule returned_outcome)
  note T = overlap_control_blocks_similar[of "result_set_hash E department_rows"
      E "''analyst''" "4 / 5" _ department_query None no_cred]
  have hist1: "query_history (snd X1) = entry # query_history empty_db"
    using T[of empty_db "projr (fst X1)" "snd X1" department_rows] x1 res1
    unfolding X1_def[symmetric] entry_def by simp
  have h: "\<not> isl (fst H)" unfolding H_def X1_def E_def by code_simp
  have hx: "H = (Inr (projr (fst H)), snd H)" using h by (rule returned_outcome)
  have "projr (fst H) = take 20 (filter (\<lambda>e. h_username e = ''analyst'') (query_history (snd X1)))"
    using T[of "snd X1" _ _ _ "projr (fst H)" "snd H"] hx unfolding H_def[symmetric] by blast
  then have mem: "entry \<in> set (projr (fst H))"
    unfolding hist1 by (simp add: entry_def)
  have g: "G = (Inr (Some department_rows, False, None), snd G)"
    unfolding G_def H_def X1_def E_def by code_simp
  have nf: "fst (fault E (world (snd G))) = None" unfolding E_def example_env_def by simp
  have ne: "department_rows \<noteq> []" by (simp add: department_rows_def)
  have sim: "calculate_overlap (result_set_hash E department_rows)
               (result_set_hash E department_rows) > 4 / 5"
    using T by simp
  have st: "h_result_set_hash entry = Some (result_set_hash E department_rows)"
    by (simp add: entry_def)
  have "\<exists>out d. OverlapControl_aggregate E ''analyst'' (4 / 5) (snd X1) department_query
                     None no_cred = (Inr out, d)
                  \<and> blocked out \<and> results out = None"
    using T[of "snd X1" _ _ _ "projr (fst H)" "snd H" department_rows "snd G" entry
            "result_set_hash E department_rows"]
      hx g mem st ne sim nf
    unfolding H_def[symmetric] G_def[symmetric] by blast
  then show ?thesis
    using res1 unfolding Let_def X1_def E_def by simp
qed

subsection \<open>Cell Suppression (C5)\<close>

lemma find_count_col_first:
  "count_like c \<Longrightarrow> \<forall>k\<in>set pre. \<not> count_like k \<Longrightarrow>
   find_count_col (pre @ c # post) = Some c"
  by (induction pre) (auto simp: count_like_def py_in_sublist)

lemma find_count_col_none:
  "\<forall>k\<in>set ks. \<not> count_like k \<Longrightarrow> find_count_col ks = None"
  by (induction ks) (auto simp: count_like_def py_in_sublist)

lemma find_count_col_like: "find_count_col ks = Some c \<Longrightarrow> count_like c \<and> c \<in> set ks"
  by (induction ks) (auto simp: count_like_def py_in_sublist split: if_splits)

lemma map_of_first:
  "c \<notin> fst ` set pre \<Longrightarrow> map_of (pre @ (c, v) # post) c = Some v"
  by (induction pre) auto

lemma py_lt_int_num:
  "num_of v = Some x \<Longrightarrow> py_lt_int v m = Inr (x < real_of_int m)"
  by (cases v) auto

lemma py_lt_int_Inr: "py_lt_int v m = Inr b \<Longrightarrow> num_of v \<noteq> None"
  by (cases v) auto

lemma suppress_row_count:
  assumes "r = pre @ (c, v) # post" "count_like c" "\<forall>k\<in>fst ` set pre. \<not> count_like k"
    and "num_of v = Some x"
  shows "suppress_row m r =
           Inr (if x < real_of_int m
                then (map (\<lambda>(k, y). (k, if k = c then PNone else PStr ''SUPPRESSED'')) r, True)
                else (r, False))"
proof -
  have "find_count_col (map fst r) = Some c"
    using assms(1,2,3) find_count_col_first[of c "map fst pre" "map fst post"] by simp
  moreover have "c \<notin> fst ` set pre" using assms(2,3) by blast
  then have "map_of (pre @ (c, v) # post) c = Some v" by (rule map_of_first)
  then have "getitem r c = Inr v" unfolding assms(1) getitem_def by (simp only: option.case)
  moreover have "suppressed_row c r
                 = map (\<lambda>(k, y). (k, if k = c then PNone else PStr ''SUPPRESSED'')) r"
    by (auto simp: suppressed_row_def)
  ultimately show ?thesis
    using py_lt_int_num[OF assms(4), of m] by (simp add: suppress_row_def)
qed

lemma suppress_row_plain:
  "\<forall>k\<in>fst ` set r. \<not> count_like k \<Longrightarrow> suppress_row m r = Inr (r, False)"
  using find_count_col_none[of "map fst r"] by (simp add: suppress_row_def)

lemma suppress_row_total:
  assumes "count_is_number r"
  shows "\<exists>r' b. suppress_row m r = Inr (r', b)"
proof (cases "find_count_col (map fst r)")
  case None
  then show ?thesis by (auto simp: suppress_row_def)
next
  case (Some c)
  then obtain v x where v: "map_of r c = Some v" "num_of v = Some x"
    using assms by (auto simp: count_is_number_def split: option.splits)
  have "py_lt_int v m = Inr (x < real_of_int m)" using v(2) by (rule py_lt_int_num)
  then show ?thesis using Some v(1)
    by (cases "x < real_of_int m") (auto simp: suppress_row_def getitem_def)
qed

lemma suppress_loop_rows:
  "suppress_loop m rs acc n = Inr (out, k) \<Longrightarrow>
   \<exists>outs. out = acc @ outs \<and> length outs = length rs
     \<and> (\<forall>i<length rs. \<exists>b. suppress_row m (rs ! i) = Inr (outs ! i, b))"
proof (induction rs arbitrary: acc n)
  case Nil
  then show ?case by simp
next
  case (Cons r rs)
  from Cons.prems obtain r' b where r': "suppress_row m r = Inr (r', b)"
    by (auto split: sum.splits prod.splits)
  with Cons.prems have "suppress_loop m rs (acc @ [r']) (if b then Suc n else n) = Inr (out, k)"
    by simp
  from Cons.IH[OF this] obtain outs where outs: "out = (acc @ [r']) @ outs"
    "length outs = length rs"
    "\<forall>i<length rs. \<exists>b. suppress_row m (rs ! i) = Inr (outs ! i, b)" by blast
  have "\<forall>i<length (r # rs). \<exists>b. suppress_row m ((r # rs) ! i) = Inr ((r' # outs) ! i, b)"
  proof (intro allI impI)
    fix i assume "i < length (r # rs)"
    then show "\<exists>b. suppress_row m ((r # rs) ! i) = Inr ((r' # outs) ! i, b)"
      using r' outs(3) by (cases i) auto
  qed
  then show ?case using outs(1,2) by (intro exI[of _ "r' # outs"]) simp
qed

lemma suppress_loop_total:
  "\<forall>r\<in>set rs. count_is_number r \<Longrightarrow> \<exists>out k. suppress_loop m rs acc n = Inr (out, k)"
proof (induction rs arbitrary: acc n)
  case Nil
  then show ?case by simp
next
  case (Cons r rs)
  then obtain r' b where "suppress_row m r = Inr (r', b)"
    using suppress_row_total[of r m] by auto
  then show ?case using Cons.IH[of "acc @ [r']" "if b then Suc n else n"] Cons.prems by simp
qed

lemma CellSuppression_rows_detail:
  assumes "execute_with_logging E u db q ps cr = (Inr (Some rows, False, None), db1)"
    and "rows \<noteq> []"
    and "CellSuppression_aggregate E u m db q ps cr = (Inr out, d)"
  shows "\<not> blocked out \<and>
         (\<exists>outs. results out = Some outs \<and> length outs = length rows
            \<and> (\<forall>i<length rows. \<exists>b. suppress_row m (rows ! i) = Inr (outs ! i, b)))"
  using assms
  by (auto simp: CellSuppression_aggregate_def split: sum.splits prod.splits
           dest!: suppress_loop_rows)

lemma CellSuppression_total:
  assumes "execute_with_logging E u db q ps cr = (Inr (Some rows, False, None), db1)"
    and "rows \<noteq> []" and "\<forall>r\<in>set rows. count_is_number r"
  shows "\<exists>out. CellSuppression_aggregate E u m db q ps cr = (Inr out, db1)"
  using assms suppress_loop_total[OF assms(3), of m "[]" 0]
  by (auto simp: CellSuppression_aggregate_def split: sum.splits prod.splits)


text \<open>
  Claim C5, as the code has it. Let the gateway have returned a non-empty result set.
  Every outcome Cell Suppression then returns is unblocked and has one row for each
  row of the result set. The count column of a row is its first column, in the order
  of the row, whose lower-cased name contains \<open>count\<close>. If that column holds a
  number below the minimum cell size, the count column becomes \<open>None\<close> and every other
  column becomes the suppression marker; if it holds a number that is not below the
  minimum, or if the row has no such column, the row passes through unchanged. The
  strategy does return an outcome when the count column of every row holds a number.
\<close>

theorem cell_suppression_per_row:
  assumes "execute_with_logging E u db q ps cr = (Inr (Some rows, False, None), db1)"
    and "rows \<noteq> []"
  shows "(CellSuppression_aggregate E u m db q ps cr = (Inr out, d) \<longrightarrow>
            \<not> blocked out
            \<and> (\<exists>outs. results out = Some outs \<and> length outs = length rows
                 \<and> (\<forall>i<length rows.
                      (\<forall>pre c v post x.
                          rows ! i = pre @ (c, v) # post \<and> count_like c
                          \<and> (\<forall>k\<in>fst ` set pre. \<not> count_like k) \<and> num_of v = Some x \<longrightarrow>
                          outs ! i =
                            (if x < real_of_int m
                             then map (\<lambda>(k, y). (k, if k = c then PNone else PStr ''SUPPRESSED''))
                                    (rows ! i)
                             else rows ! i))
                      \<and> ((\<forall>k\<in>fst ` set (rows ! i). \<not> count_like k) \<longrightarrow>
                            outs ! i = rows ! i))))
       \<and> ((\<forall>r\<in>set rows. count_is_number r) \<longrightarrow>
            (\<exists>out. CellSuppression_aggregate E u m db q ps cr = (Inr out, db1)))"
proof (intro conjI impI)
  assume agg: "CellSuppression_aggregate E u m db q ps cr = (Inr out, d)"
  from CellSuppression_rows_detail[OF assms agg]
  obtain outs where outs: "results out = Some outs" "length outs = length rows"
    "\<forall>i<length rows. \<exists>b. suppress_row m (rows ! i) = Inr (outs ! i, b)"
    and nb: "\<not> blocked out" by blast
  show "\<not> blocked out" by (rule nb)
  have "\<forall>i<length rows.
          (\<forall>pre c v post x.
              rows ! i = pre @ (c, v) # post \<and> count_like c
              \<and> (\<forall>k\<in>fst ` set pre. \<not> count_like k) \<and> num_of v = Some x \<longrightarrow>
              outs ! i =
                (if x < real_of_int m
                 then map (\<lambda>(k, y). (k, if k = c then PNone else PStr ''SUPPRESSED''))
                        (rows ! i)
                 else rows ! i))
          \<and> ((\<forall>k\<in>fst ` set (rows ! i). \<not> count_like k) \<longrightarrow> outs ! i = rows ! i)"
  proof (intro allI impI conjI)
    fix i pre c v post x
    assume i: "i < length rows"
      and h: "rows ! i = pre @ (c, v) # post \<and> count_like c
              \<and> (\<forall>k\<in>fst ` set pre. \<not> count_like k) \<and> num_of v = Some x"
    from outs(3) i obtain b where b: "suppress_row m (rows ! i) = Inr (outs ! i, b)" by blast
    have "suppress_row m (rows ! i) =
           Inr (if x < real_of_int m
                then (map (\<lambda>(k, y). (k, if k = c then PNone else PStr ''SUPPRESSED'')) (rows ! i), True)
                else (rows ! i, False))"
      using h by (intro suppress_row_count[of _ pre c v post]) blast+
    with b show "outs ! i =
                (if x < real_of_int m
                 then map (\<lambda>(k, y). (k, if k = c then PNone else PStr ''SUPPRESSED''))
                        (rows ! i)
                 else rows ! i)"
      by (auto split: if_splits)
  next
    fix i
    assume i: "i < length rows" and h: "\<forall>k\<in>fst ` set (rows ! i). \<not> count_like k"
    from outs(3) i obtain b where b: "suppress_row m (rows ! i) = Inr (outs ! i, b)" by blast
    with suppress_row_plain[OF h, of m] show "outs ! i = rows ! i" by simp
  qed
  then show "\<exists>outs. results out = Some outs \<and> length outs = length rows
                 \<and> (\<forall>i<length rows.
                      (\<forall>pre c v post x.
                          rows ! i = pre @ (c, v) # post \<and> count_like c
                          \<and> (\<forall>k\<in>fst ` set pre. \<not> count_like k) \<and> num_of v = Some x \<longrightarrow>
                          outs ! i =
                            (if x < real_of_int m
                             then map (\<lambda>(k, y). (k, if k = c then PNone else PStr ''SUPPRESSED''))
                                    (rows ! i)
                             else rows ! i))
                      \<and> ((\<forall>k\<in>fst ` set (rows ! i). \<not> count_like k) \<longrightarrow>
                            outs ! i = rows ! i))"
    using outs(1,2) by blast
next
  assume "\<forall>r\<in>set rows. count_is_number r"
  then show "\<exists>out. CellSuppression_aggregate E u m db q ps cr = (Inr out, db1)"
    using CellSuppression_total[OF assms] by blast
qed

text \<open>
  C5 on the grouped count with minimum cell size 3: the group of 12 passes, the group
  of 2 is suppressed.
\<close>

theorem cell_suppression_per_row_witness:
  "\<exists>out outs. CellSuppression_aggregate (example_env department_store []) ''analyst'' 3
                  empty_db department_query None no_cred
                = (Inr out, snd (execute_with_logging (example_env department_store [])
                                   ''analyst'' empty_db department_query None no_cred))
     \<and> \<not> blocked out \<and> results out = Some outs \<and> length outs = 2
     \<and> outs ! 0 = [(''department'', PStr ''Engineering''), (''emp_count'', PInt 12)]
     \<and> outs ! 1 = [(''department'', PStr ''SUPPRESSED''), (''emp_count'', PNone)]"
proof -
  define E where "E = example_env department_store []"
  define G where "G = execute_with_logging E ''analyst'' empty_db department_query None no_cred"
  have g: "execute_with_logging E ''analyst'' empty_db department_query None no_cred
           = (Inr (Some department_rows, False, None), snd G)"
    unfolding G_def E_def by code_simp
  have ne: "department_rows \<noteq> []" by (simp add: department_rows_def)
  have num: "\<forall>r\<in>set department_rows. count_is_number r"
    unfolding department_rows_def by code_simp
  note T = cell_suppression_per_row[OF g ne, of 3]
  from T num obtain out where
    agg: "CellSuppression_aggregate E ''analyst'' 3 empty_db department_query None no_cred
          = (Inr out, snd G)"
    by blast
  from T[of out "snd G"] agg obtain outs where
    nb: "\<not> blocked out" and outs: "results out = Some outs" "length outs = length department_rows"
    and rule: "\<And>i pre c v post x. i < length department_rows \<Longrightarrow>
        department_rows ! i = pre @ (c, v) # post \<Longrightarrow> count_like c \<Longrightarrow>
        \<forall>k\<in>fst ` set pre. \<not> count_like k \<Longrightarrow> num_of v = Some x \<Longrightarrow>
        outs ! i = (if x < real_of_int 3
                    then map (\<lambda>(k, y). (k, if k = c then PNone else PStr ''SUPPRESSED''))
                           (department_rows ! i)
                    else department_rows ! i)"
    by blast
  have cl: "count_like ''emp_count''" and ncl: "\<not> count_like ''department''"
    by code_simp+
  have r0: "outs ! 0 = [(''department'', PStr ''Engineering''), (''emp_count'', PInt 12)]"
    using rule[of 0 "[(''department'', PStr ''Engineering'')]" "''emp_count''" "PInt 12" "[]" 12]
      cl ncl by (simp add: department_rows_def)
  have r1: "outs ! 1 = [(''department'', PStr ''SUPPRESSED''), (''emp_count'', PNone)]"
    using rule[of 1 "[(''department'', PStr ''Operations'')]" "''emp_count''" "PInt 2" "[]" 2]
      cl ncl by (simp add: department_rows_def)
  have "length outs = 2" using outs(2) by (simp add: department_rows_def)
  then show ?thesis using agg nb outs(1) r0 r1 unfolding G_def E_def by blast
qed

text \<open>
  C5 as stated fails: the row has a column whose name contains \<open>count\<close> and whose
  value 1 is below the minimum 3, and it passes unchanged, because only the first such
  column is looked at.
\<close>

theorem cell_suppression_second_count_column_kept:
  "count_like ''bonus_count''
   \<and> fst (CellSuppression_aggregate (example_env bonus_store []) ''analyst'' 3
            empty_db bonus_query None no_cred)
     = Inr \<lparr>method_name = ''Cell Suppression'', blocked = False, block_reason = None,
            results = Some [[(''department'', PStr ''Engineering''), (''emp_count'', PInt 12),
                             (''bonus_count'', PInt 1)]],
            original_results = Some bonus_rows,
            protection_applied = Some ''min_cell_size=3, suppressed=0''\<rparr>"
  by code_simp

subsection \<open>The Differencing attack (C6)\<close>









end
